theory Spec2Isabelle
  imports Complex_Main
begin

section \<open>Python values of the service\<close>

text \<open>
  The service (\<^verbatim>\<open>src/ml/app.py\<close>) and the offline module
  (\<^verbatim>\<open>src/models/safety_score.py\<close>) are Python glue around numpy, scikit-learn,
  joblib and Flask. The embedding keeps the control flow of the two files as it is written
  and takes the library calls as parameters (record \<open>library\<close> below).

  Numbers are modelled as mathematical numbers: a Python or numpy float is a \<open>real\<close>,
  the value of the double (every finite double is one, and a comparison of two doubles, or
  of a double with an integer, is exact), a Python int is an \<open>int\<close>. A float literal
  of the source stands for the double it denotes: \<^verbatim>\<open>0.8\<close> is
  \<open>3602879701896397 / 2 ^ 52\<close> and \<^verbatim>\<open>0.2\<close> is \<open>3602879701896397 / 2 ^ 54\<close>, not the
  fractions 4/5 and 1/5. NaN and the infinities are outside the model.
\<close>

text \<open>What \<^verbatim>\<open>request.json\<close> can evaluate to: the objects Python's JSON parser builds.
  \<open>JFloat x\<close> carries the value \<open>x\<close> of the double the parser produced.\<close>

datatype json =
    JNull
  | JBool bool
  | JInt int
  | JFloat real
  | JStr string
  | JList "json list"
  | JDict "(string \<times> json) list"

text \<open>
  The objects the two files put into their result dictionaries. \<open>NpFloat\<close> and
  \<open>NpBool\<close> are numpy scalars: an element of the array returned by \<^verbatim>\<open>predict\<close>
  is a numpy number, and comparing it (\<^verbatim>\<open>anomaly == -1\<close>) yields numpy's
  \<^verbatim>\<open>bool_\<close>, not Python's \<^verbatim>\<open>bool\<close>.
\<close>

datatype pyval =
    PyBool bool
  | PyInt int
  | PyFloat real
  | PyStr string
  | NpBool bool
  | NpFloat real

text \<open>The exceptions the code can meet; \<open>OtherError cls msg\<close> is any other subclass of
  \<^verbatim>\<open>Exception\<close> raised by a library (class name and message).\<close>

datatype exn =
    KeyError string
  | TypeError string
  | IndexError string
  | UnboundLocalError string
  | FileNotFoundError string
  | OtherError string string

definition quoted :: "string \<Rightarrow> string" where
  "quoted s = CHR 0x27 # s @ [CHR 0x27]"

text \<open>\<^verbatim>\<open>str(e)\<close>: the message; for a \<^verbatim>\<open>KeyError\<close> the \<^verbatim>\<open>repr\<close> of the key
  (the key in single quotes, for the plain keys used here).\<close>

fun str_exn :: "exn \<Rightarrow> string" where
  "str_exn (KeyError k) = quoted k"
| "str_exn (TypeError msg) = msg"
| "str_exn (IndexError msg) = msg"
| "str_exn (UnboundLocalError msg) = msg"
| "str_exn (FileNotFoundError msg) = msg"
| "str_exn (OtherError cls msg) = msg"

text \<open>Sequencing of fallible steps: the first exception raised ends the sequence.\<close>

definition bind :: "exn + 'a \<Rightarrow> ('a \<Rightarrow> exn + 'b) \<Rightarrow> exn + 'b" where
  "bind m f = (case m of Inl e \<Rightarrow> Inl e | Inr x \<Rightarrow> f x)"

section \<open>Classification of a score\<close>

text \<open>
  \<^verbatim>\<open>src/ml/app.py\<close>, lines 43 and 44:
  \<^verbatim>\<open>
  color = 'green' if score >= 80 else 'yellow' if score >= 50 else 'red'
  tip = 'Adventure Ready!' if score >= 80 else 'Proceed with Caution' if score >= 50 else 'Reroute Recommended'
  \<close>
\<close>

definition app_color :: "real \<Rightarrow> string" where
  "app_color score =
     (if score \<ge> 80 then ''green'' else if score \<ge> 50 then ''yellow'' else ''red'')"

definition app_tip :: "real \<Rightarrow> string" where
  "app_tip score =
     (if score \<ge> 80 then ''Adventure Ready!''
      else if score \<ge> 50 then ''Proceed with Caution'' else ''Reroute Recommended'')"

text \<open>\<^verbatim>\<open>src/models/safety_score.py\<close>, lines 34 and 35 (the same two expressions).\<close>

definition safety_score_color :: "real \<Rightarrow> string" where
  "safety_score_color score =
     (if score \<ge> 80 then ''green'' else if score \<ge> 50 then ''yellow'' else ''red'')"

definition safety_score_tip :: "real \<Rightarrow> string" where
  "safety_score_tip score =
     (if score \<ge> 80 then ''Adventure Ready!''
      else if score \<ge> 50 then ''Proceed with Caution'' else ''Reroute Recommended'')"

text \<open>The verdict expression \<^verbatim>\<open>anomaly == -1\<close>: line 55 of \<^verbatim>\<open>app.py\<close> and line 41 of
  \<^verbatim>\<open>safety_score.py\<close>. The label is a numpy number, so the result is a numpy
  \<^verbatim>\<open>bool_\<close>.\<close>

definition app_anomaly :: "real \<Rightarrow> pyval" where
  "app_anomaly anomaly = NpBool (anomaly = - 1)"

definition safety_score_anomaly :: "real \<Rightarrow> pyval" where
  "safety_score_anomaly anomaly = NpBool (anomaly = - 1)"

section \<open>Library interface\<close>

text \<open>
  numpy, scikit-learn and pandas are not part of the repository. Their calls are
  parameters: \<open>'m\<close> is a fitted estimator object, \<open>'arr\<close> a numpy array, \<open>'g\<close> the
  state of numpy's global random generator. Every call that may draw from the generator
  takes its state and returns the new one.
  \<^item> \<open>np_array rows\<close> is \<^verbatim>\<open>np.array(rows)\<close> on a nested list;
  \<^item> \<open>predict m a\<close> is \<^verbatim>\<open>m.predict(a)\<close>: an exception or the array of predictions.
    Nothing is assumed of the estimator: it may draw from the generator;
  \<^item> \<open>random_bits53\<close> draws the 53 random bits of which numpy makes one float of
    \<^verbatim>\<open>np.random.rand\<close>, \<open>random_integer lo hi\<close> one integer of
    \<^verbatim>\<open>np.random.randint(lo, hi, ...)\<close>;
  \<^item> \<open>train_test_split X y test_size\<close> returns \<open>(X_train, X_test, y_train, y_test)\<close>;
  \<^item> \<open>fit_regressor X y\<close> is \<^verbatim>\<open>RandomForestRegressor().fit(X, y)\<close> and
    \<open>fit_isolation X\<close> is \<^verbatim>\<open>IsolationForest().fit(X)\<close>.
\<close>

record ('m, 'arr, 'g) library =
  np_array :: "json list list \<Rightarrow> exn + 'arr"
  predict :: "'m \<Rightarrow> 'arr \<Rightarrow> 'g \<Rightarrow> (exn + real list) \<times> 'g"
  random_bits53 :: "'g \<Rightarrow> nat \<times> 'g"
  random_integer :: "int \<Rightarrow> int \<Rightarrow> 'g \<Rightarrow> int \<times> 'g"
  train_test_split :: "real list list \<Rightarrow> int list \<Rightarrow> real \<Rightarrow> 'g
     \<Rightarrow> (real list list \<times> real list list \<times> int list \<times> int list) \<times> 'g"
  fit_regressor :: "real list list \<Rightarrow> int list \<Rightarrow> 'g \<Rightarrow> 'm \<times> 'g"
  fit_isolation :: "real list list \<Rightarrow> 'g \<Rightarrow> 'm \<times> 'g"

text \<open>The two module globals of \<^verbatim>\<open>app.py\<close>.\<close>

record 'm models =
  regressor :: 'm
  anomaly_detector :: 'm

section \<open>Python operations used by the handlers\<close>

fun type_name :: "json \<Rightarrow> string" where
  "type_name JNull = ''NoneType''"
| "type_name (JBool b) = ''bool''"
| "type_name (JInt i) = ''int''"
| "type_name (JFloat x) = ''float''"
| "type_name (JStr s) = ''str''"
| "type_name (JList xs) = ''list''"
| "type_name (JDict kvs) = ''dict''"

text \<open>\<^verbatim>\<open>data[key]\<close> with a string key. A dictionary raises \<^verbatim>\<open>KeyError\<close> for an absent
  key; every other JSON value raises \<^verbatim>\<open>TypeError\<close>. \<open>JDict kvs\<close> stands for the
  dictionary that binds each key to its first value in \<open>kvs\<close>.\<close>

fun subscript :: "json \<Rightarrow> string \<Rightarrow> exn + json" where
  "subscript (JDict kvs) key =
     (case map_of kvs key of Some v \<Rightarrow> Inr v | None \<Rightarrow> Inl (KeyError key))"
| "subscript (JList xs) key =
     Inl (TypeError ''list indices must be integers or slices, not str'')"
| "subscript (JStr s) key =
     Inl (TypeError (''string indices must be integers, not '' @ quoted ''str''))"
| "subscript v key =
     Inl (TypeError (quoted (type_name v) @ '' object is not subscriptable''))"

text \<open>\<^verbatim>\<open>v > c\<close> for a float constant \<open>c\<close>: numbers and booleans compare (a bool is the
  integer 0 or 1), anything else raises \<^verbatim>\<open>TypeError\<close>.\<close>

fun greater_than :: "json \<Rightarrow> real \<Rightarrow> exn + bool" where
  "greater_than (JInt i) c = Inr (real_of_int i > c)"
| "greater_than (JFloat x) c = Inr (x > c)"
| "greater_than (JBool b) c = Inr ((if b then 1 else 0) > c)"
| "greater_than v c =
     Inl (TypeError (quoted ''>'' @ '' not supported between instances of ''
                      @ quoted (type_name v) @ '' and '' @ quoted ''float''))"

text \<open>\<^verbatim>\<open>predictions[0]\<close> on the array returned by \<^verbatim>\<open>predict\<close>.\<close>

fun first_item :: "real list \<Rightarrow> exn + real" where
  "first_item [] = Inl (IndexError ''index 0 is out of bounds for axis 0 with size 0'')"
| "first_item (x # xs) = Inr x"

text \<open>
  \<^verbatim>\<open>jsonify(d)\<close> serialises the dictionary at once, with the standard JSON encoder.
  The encoder accepts \<^verbatim>\<open>str\<close>, \<^verbatim>\<open>int\<close>, \<^verbatim>\<open>float\<close> (numpy's \<^verbatim>\<open>float64\<close> is a subclass
  of it) and Python's \<^verbatim>\<open>bool\<close>; for any other object its default hook raises
  \<^verbatim>\<open>TypeError\<close>, and numpy's \<^verbatim>\<open>bool_\<close> is such an object.
\<close>

fun to_json :: "pyval \<Rightarrow> exn + json" where
  "to_json (PyBool b) = Inr (JBool b)"
| "to_json (PyInt i) = Inr (JInt i)"
| "to_json (PyFloat x) = Inr (JFloat x)"
| "to_json (PyStr s) = Inr (JStr s)"
| "to_json (NpFloat x) = Inr (JFloat x)"
| "to_json (NpBool b) = Inl (TypeError ''Object of type bool_ is not JSON serializable'')"

fun jsonify_items :: "(string \<times> pyval) list \<Rightarrow> exn + (string \<times> json) list" where
  "jsonify_items [] = Inr []"
| "jsonify_items ((k, v) # kvs) =
     bind (to_json v) (\<lambda>j. bind (jsonify_items kvs) (\<lambda>js. Inr ((k, j) # js)))"

definition jsonify :: "(string \<times> pyval) list \<Rightarrow> exn + json" where
  "jsonify d = bind (jsonify_items d) (\<lambda>js. Inr (JDict js))"

record response =
  status :: nat
  body :: json

section \<open>The request handlers of app.py\<close>

text \<open>
  \<^verbatim>\<open>[[data['risk'], data['speed'], data['weather'], data['crowd']]]\<close>: the four
  subscripts are evaluated from left to right, and the first that raises ends the
  evaluation.
\<close>

definition feature_rows :: "json \<Rightarrow> exn + json list list" where
  "feature_rows data =
     bind (subscript data ''risk'') (\<lambda>risk.
     bind (subscript data ''speed'') (\<lambda>speed.
     bind (subscript data ''weather'') (\<lambda>weather.
     bind (subscript data ''crowd'') (\<lambda>crowd.
     Inr [[risk, speed, weather, crowd]]))))"

text \<open>Line 41 and line 53:
  \<^verbatim>\<open>features = np.array([[data['risk'], data['speed'], data['weather'], data['crowd']]])\<close>\<close>

definition features :: "('m, 'arr, 'g) library \<Rightarrow> json \<Rightarrow> exn + 'arr" where
  "features lib data = bind (feature_rows data) (np_array lib)"

text \<open>
  The body of the \<^verbatim>\<open>try\<close> block of \<^verbatim>\<open>predict_safety\<close> (lines 40 to 45). The
  argument \<open>request_json\<close> is what evaluating \<^verbatim>\<open>request.json\<close> gives: an exception
  raised by Flask (no JSON body, malformed JSON) or the parsed body. The argument \<open>g\<close>
  is the state of the random generator when the request arrives; the handler returns the
  state it leaves. Reading the body and building the array draw nothing; the call of
  \<^verbatim>\<open>predict\<close> is the one place where the state can change.
\<close>

definition predict_safety_try ::
  "('m, 'arr, 'g) library \<Rightarrow> 'm models \<Rightarrow> exn + json \<Rightarrow> 'g \<Rightarrow> (exn + response) \<times> 'g" where
  "predict_safety_try lib st request_json g =
     (case bind request_json (\<lambda>data. features lib data) of
        Inl e \<Rightarrow> (Inl e, g)
      | Inr fs \<Rightarrow>
          (case predict lib (regressor st) fs g of (result, g1) \<Rightarrow>
             (bind result (\<lambda>predictions.
              bind (first_item predictions) (\<lambda>score.
              bind (jsonify [(''score'', PyFloat score),
                             (''color'', PyStr (app_color score)),
                             (''tip'', PyStr (app_tip score))]) (\<lambda>j.
              Inr \<lparr>status = 200, body = j\<rparr>))), g1)))"

text \<open>\<^verbatim>\<open>predict_safety\<close> (lines 38 to 47): \<open>Inl\<close> is an exception that leaves the
  handler, \<open>Inr\<close> the response it returns.\<close>

definition predict_safety ::
  "('m, 'arr, 'g) library \<Rightarrow> 'm models \<Rightarrow> exn + json \<Rightarrow> 'g \<Rightarrow> (exn + response) \<times> 'g" where
  "predict_safety lib st request_json g =
     (case predict_safety_try lib st request_json g of
        (Inr r, g1) \<Rightarrow> (Inr r, g1)
      | (Inl e, g1) \<Rightarrow>
          (bind (jsonify [(''error'', PyStr (str_exn e)),
                          (''score'', PyInt 85),
                          (''color'', PyStr ''green''),
                          (''tip'', PyStr ''Adventure Ready!'')]) (\<lambda>j.
           Inr \<lparr>status = 500, body = j\<rparr>), g1))"

text \<open>The body of the \<^verbatim>\<open>try\<close> block of \<^verbatim>\<open>detect_anomaly\<close> (lines 52 to 55).\<close>

definition detect_anomaly_try ::
  "('m, 'arr, 'g) library \<Rightarrow> 'm models \<Rightarrow> exn + json \<Rightarrow> 'g \<Rightarrow> (exn + response) \<times> 'g" where
  "detect_anomaly_try lib st request_json g =
     (case bind request_json (\<lambda>data. features lib data) of
        Inl e \<Rightarrow> (Inl e, g)
      | Inr fs \<Rightarrow>
          (case predict lib (anomaly_detector st) fs g of (result, g1) \<Rightarrow>
             (bind result (\<lambda>predictions.
              bind (first_item predictions) (\<lambda>anomaly.
              bind (jsonify [(''anomaly'', app_anomaly anomaly)]) (\<lambda>j.
              Inr \<lparr>status = 200, body = j\<rparr>))), g1)))"

text \<open>
  \<^verbatim>\<open>detect_anomaly\<close> (lines 50 to 57). The handler of the \<^verbatim>\<open>except\<close> clause reads the
  local variable \<^verbatim>\<open>data\<close>, which is unbound when \<^verbatim>\<open>request.json\<close> itself raised,
  subscripts it and compares the result with the float \<^verbatim>\<open>0.8\<close>, the double
  \<open>3602879701896397 / 2 ^ 52\<close>; an exception raised there leaves the handler.
\<close>

definition detect_anomaly ::
  "('m, 'arr, 'g) library \<Rightarrow> 'm models \<Rightarrow> exn + json \<Rightarrow> 'g \<Rightarrow> (exn + response) \<times> 'g" where
  "detect_anomaly lib st request_json g =
     (case detect_anomaly_try lib st request_json g of
        (Inr r, g1) \<Rightarrow> (Inr r, g1)
      | (Inl e, g1) \<Rightarrow>
          (bind (case request_json of
                   Inl _ \<Rightarrow> Inl (UnboundLocalError
                      (''cannot access local variable '' @ quoted ''data''
                       @ '' where it is not associated with a value''))
                 | Inr data \<Rightarrow> Inr data) (\<lambda>data.
           bind (subscript data ''risk'') (\<lambda>risk.
           bind (greater_than risk (3602879701896397 / 2 ^ 52)) (\<lambda>flag.
           bind (jsonify [(''error'', PyStr (str_exn e)), (''anomaly'', PyBool flag)]) (\<lambda>j.
           Inr \<lparr>status = 500, body = j\<rparr>)))), g1))"

section \<open>Persistence and startup\<close>

text \<open>
  The file system as joblib and \<^verbatim>\<open>os\<close> see it. A file either unpickles to an object
  or makes \<^verbatim>\<open>load\<close> raise (unreadable, truncated, not a pickle); \<open>write_fault\<close> gives,
  for a path, the exception that creating or writing it raises, if any (permissions,
  read-only or full disk).
\<close>

datatype 'm stored = Pickle 'm | Unreadable exn

record 'm filesystem =
  files :: "string \<Rightarrow> 'm stored option"
  dirs :: "string set"
  write_fault :: "string \<Rightarrow> exn option"

definition models_dir :: string where
  "models_dir = ''models''"

definition regressor_path :: string where
  "regressor_path = ''models/safety_regressor.pkl''"

definition anomaly_path :: string where
  "anomaly_path = ''models/anomaly_detector.pkl''"

definition no_such_file :: "string \<Rightarrow> exn" where
  "no_such_file path =
     FileNotFoundError (''[Errno 2] No such file or directory: '' @ quoted path)"

text \<open>\<^verbatim>\<open>joblib.load(path)\<close>.\<close>

definition load :: "string \<Rightarrow> 'm filesystem \<Rightarrow> exn + 'm" where
  "load path fs =
     (case files fs path of
        None \<Rightarrow> Inl (no_such_file path)
      | Some (Unreadable e) \<Rightarrow> Inl e
      | Some (Pickle m) \<Rightarrow> Inr m)"

text \<open>\<^verbatim>\<open>os.makedirs(path, exist_ok=True)\<close>: nothing to do for an existing directory; a
  regular file of that name is an error.\<close>

definition makedirs :: "string \<Rightarrow> 'm filesystem \<Rightarrow> exn + 'm filesystem" where
  "makedirs path fs =
     (if path \<in> dirs fs then Inr fs
      else case write_fault fs path of
        Some e \<Rightarrow> Inl e
      | None \<Rightarrow>
          (case files fs path of
             Some f \<Rightarrow> Inl (OtherError ''FileExistsError''
                              (''[Errno 17] File exists: '' @ quoted path))
           | None \<Rightarrow> Inr (fs\<lparr>dirs := insert path (dirs fs)\<rparr>)))"

text \<open>\<^verbatim>\<open>joblib.dump(obj, path)\<close>: it replaces the file, unless writing the path faults.\<close>

definition dump :: "'m \<Rightarrow> string \<Rightarrow> 'm filesystem \<Rightarrow> exn + 'm filesystem" where
  "dump obj path fs =
     (case write_fault fs path of
        Some e \<Rightarrow> Inl e
      | None \<Rightarrow> Inr (fs\<lparr>files := (files fs)(path \<mapsto> Pickle obj)\<rparr>))"

text \<open>
  One float of \<^verbatim>\<open>np.random.rand\<close>: numpy draws 53 random bits \<open>k\<close> and returns the
  double \<open>k / 2 ^ 53\<close>. The bits supplied by the library are reduced modulo \<open>2 ^ 53\<close>, so
  that every instance of the interface is a source of 53 bits.
\<close>

definition random_sample :: "('m, 'arr, 'g) library \<Rightarrow> 'g \<Rightarrow> real \<times> 'g" where
  "random_sample lib g =
     (case random_bits53 lib g of (k, g1) \<Rightarrow> (real (k mod 2 ^ 53) / 2 ^ 53, g1))"

text \<open>\<^verbatim>\<open>np.random.rand(n)\<close> and \<^verbatim>\<open>np.random.randint(lo, hi, n)\<close>: \<open>n\<close> draws in a row
  from the global generator.\<close>

fun rand :: "('m, 'arr, 'g) library \<Rightarrow> nat \<Rightarrow> 'g \<Rightarrow> real list \<times> 'g" where
  "rand lib 0 g = ([], g)"
| "rand lib (Suc n) g =
     (case random_sample lib g of (x, g1) \<Rightarrow>
        (case rand lib n g1 of (xs, g2) \<Rightarrow> (x # xs, g2)))"

fun randint :: "('m, 'arr, 'g) library \<Rightarrow> int \<Rightarrow> int \<Rightarrow> nat \<Rightarrow> 'g \<Rightarrow> int list \<times> 'g" where
  "randint lib lo hi 0 g = ([], g)"
| "randint lib lo hi (Suc n) g =
     (case random_integer lib lo hi g of (x, g1) \<Rightarrow>
        (case randint lib lo hi n g1 of (xs, g2) \<Rightarrow> (x # xs, g2)))"

text \<open>The data frame of lines 17 to 23 of \<^verbatim>\<open>app.py\<close> (lines 9 to 15 of
  \<^verbatim>\<open>safety_score.py\<close>): five columns.\<close>

record data_frame =
  risk :: "real list"
  speed :: "real list"
  weather :: "real list"
  crowd :: "real list"
  score :: "int list"

definition synthesize :: "('m, 'arr, 'g) library \<Rightarrow> 'g \<Rightarrow> data_frame \<times> 'g" where
  "synthesize lib g0 =
     (case rand lib 100 g0 of (c1, g1) \<Rightarrow>
      case rand lib 100 g1 of (c2, g2) \<Rightarrow>
      case rand lib 100 g2 of (c3, g3) \<Rightarrow>
      case rand lib 100 g3 of (c4, g4) \<Rightarrow>
      case randint lib 0 100 100 g4 of (c5, g5) \<Rightarrow>
        (\<lparr>risk = c1, speed = c2, weather = c3, crowd = c4, score = c5\<rparr>, g5))"

text \<open>
  Lines 17 to 31 of \<^verbatim>\<open>app.py\<close> and, statement for statement, lines 9 to 24 of
  \<^verbatim>\<open>safety_score.py\<close>: the data frame, \<^verbatim>\<open>X\<close> (the four feature columns) and \<^verbatim>\<open>y\<close>,
  the split with \<^verbatim>\<open>test_size=0.2\<close>, and the two fits, both on \<^verbatim>\<open>X_train\<close>.
\<close>

definition train :: "('m, 'arr, 'g) library \<Rightarrow> 'g \<Rightarrow> 'm models \<times> 'g" where
  "train lib g0 =
     (case synthesize lib g0 of (data, g5) \<Rightarrow>
      case train_test_split lib [risk data, speed data, weather data, crowd data]
             (score data) (3602879701896397 / 2 ^ 54) g5 of
               ((X_train, X_test, y_train, y_test), g6) \<Rightarrow>
      case fit_regressor lib X_train y_train g6 of (reg, g7) \<Rightarrow>
      case fit_isolation lib X_train g7 of (det, g8) \<Rightarrow>
        (\<lparr>regressor = reg, anomaly_detector = det\<rparr>, g8))"

text \<open>Lines 33 to 35 of \<^verbatim>\<open>app.py\<close> (27 to 29 of \<^verbatim>\<open>safety_score.py\<close>): the first
  exception raised ends the sequence, and the file system keeps what was written before.\<close>

definition persist ::
  "'m models \<Rightarrow> 'm filesystem \<Rightarrow> (exn + unit) \<times> 'm filesystem" where
  "persist st fs =
     (case makedirs models_dir fs of
        Inl e \<Rightarrow> (Inl e, fs)
      | Inr fs1 \<Rightarrow>
          (case dump (regressor st) regressor_path fs1 of
             Inl e \<Rightarrow> (Inl e, fs1)
           | Inr fs2 \<Rightarrow>
               (case dump (anomaly_detector st) anomaly_path fs2 of
                  Inl e \<Rightarrow> (Inl e, fs2)
                | Inr fs3 \<Rightarrow> (Inr (), fs3))))"

text \<open>
  The module initialisation of \<^verbatim>\<open>app.py\<close> (lines 12 to 35). The state is the file
  system and the random generator; the result is the exception that aborts the import,
  or the two module globals.
\<close>

definition startup ::
  "('m, 'arr, 'g) library \<Rightarrow> 'm filesystem \<times> 'g
     \<Rightarrow> (exn + 'm models) \<times> ('m filesystem \<times> 'g)" where
  "startup lib w =
     (case w of (fs, g) \<Rightarrow>
        (case bind (load regressor_path fs) (\<lambda>reg.
              bind (load anomaly_path fs) (\<lambda>det.
              Inr \<lparr>regressor = reg, anomaly_detector = det\<rparr>)) of
           Inr st \<Rightarrow> (Inr st, (fs, g))
         | Inl (FileNotFoundError msg) \<Rightarrow>
             (case train lib g of (st, g') \<Rightarrow>
                (case persist st fs of
                   (Inl e, fs') \<Rightarrow> (Inl e, (fs', g'))
                 | (Inr u, fs') \<Rightarrow> (Inr st, (fs', g'))))
         | Inl e \<Rightarrow> (Inl e, (fs, g))))"

section \<open>The offline module safety_score.py\<close>

text \<open>The module initialisation (lines 8 to 29) always trains and persists.\<close>

definition safety_score_init ::
  "('m, 'arr, 'g) library \<Rightarrow> 'm filesystem \<times> 'g
     \<Rightarrow> (exn + 'm models) \<times> ('m filesystem \<times> 'g)" where
  "safety_score_init lib w =
     (case w of (fs, g) \<Rightarrow>
        (case train lib g of (st, g') \<Rightarrow>
           (case persist st fs of
              (Inl e, fs') \<Rightarrow> (Inl e, (fs', g'))
            | (Inr u, fs') \<Rightarrow> (Inr st, (fs', g')))))"

text \<open>\<^verbatim>\<open>predict_safety(features)\<close> and \<^verbatim>\<open>detect_anomaly(features)\<close> (lines 31 to 41): the
  model is loaded from its file at every call, and the result is a dictionary.\<close>

definition safety_score_predict_safety ::
  "('m, 'arr, 'g) library \<Rightarrow> 'm filesystem \<Rightarrow> 'arr \<Rightarrow> 'g
     \<Rightarrow> (exn + (string \<times> pyval) list) \<times> 'g" where
  "safety_score_predict_safety lib fs fts g =
     (case load regressor_path fs of
        Inl e \<Rightarrow> (Inl e, g)
      | Inr reg \<Rightarrow>
          (case predict lib reg fts g of (result, g1) \<Rightarrow>
             (bind result (\<lambda>predictions.
              bind (first_item predictions) (\<lambda>score.
              Inr [(''score'', NpFloat score),
                   (''color'', PyStr (safety_score_color score)),
                   (''tip'', PyStr (safety_score_tip score))])), g1)))"

definition safety_score_detect_anomaly ::
  "('m, 'arr, 'g) library \<Rightarrow> 'm filesystem \<Rightarrow> 'arr \<Rightarrow> 'g
     \<Rightarrow> (exn + (string \<times> pyval) list) \<times> 'g" where
  "safety_score_detect_anomaly lib fs fts g =
     (case load anomaly_path fs of
        Inl e \<Rightarrow> (Inl e, g)
      | Inr det \<Rightarrow>
          (case predict lib det fts g of (result, g1) \<Rightarrow>
             (bind result (\<lambda>predictions.
              bind (first_item predictions) (\<lambda>anomaly.
              Inr [(''anomaly'', safety_score_anomaly anomaly)])), g1)))"

section \<open>A library instance for evaluation\<close>

text \<open>
  A small instance of the library interface, used to run the definitions on concrete
  inputs. An estimator remembers on how many samples it was fitted and predicts one
  constant for every row, as scikit-learn's dummy estimators do (50 for a fitted
  regressor, the inlier label 1 for a fitted detector) without drawing from the
  generator; arrays are nested lists; the generator state is a counter; the split holds
  out the first \<open>n_test\<close> samples, where \<open>n_test\<close> is \<open>test_size * n\<close> rounded to the
  nearest integer (20 of 100 for the test size 0.2).
\<close>

datatype toy_model = Toy (n_samples: nat) (prediction: real)

definition toy_split :: "real list list \<Rightarrow> int list \<Rightarrow> real \<Rightarrow> nat
     \<Rightarrow> (real list list \<times> real list list \<times> int list \<times> int list) \<times> nat" where
  "toy_split X y test_size g =
     (let n_test = nat \<lfloor>test_size * real (length y) + 1 / 2\<rfloor>
      in ((map (drop n_test) X, map (take n_test) X, drop n_test y, take n_test y), Suc g))"

definition toy_library :: "(toy_model, json list list, nat) library" where
  "toy_library =
     \<lparr>np_array = Inr,
      predict = (\<lambda>m a g. (Inr (map (\<lambda>row. prediction m) a), g)),
      random_bits53 = (\<lambda>g. (2 ^ 52 + g, Suc g)),
      random_integer = (\<lambda>lo hi g. (lo + int g mod (hi - lo), Suc g)),
      train_test_split = toy_split,
      fit_regressor = (\<lambda>X y g. (Toy (length y) 50, Suc g)),
      fit_isolation = (\<lambda>X g. (Toy (case X of [] \<Rightarrow> 0 | c # cs \<Rightarrow> length c) 1, Suc g))\<rparr>"

text \<open>An empty, writable file system.\<close>

definition empty_filesystem :: "'m filesystem" where
  "empty_filesystem = \<lparr>files = (\<lambda>p. None), dirs = {}, write_fault = (\<lambda>p. None)\<rparr>"

section \<open>Properties\<close>

subsection \<open>Thresholds\<close>

text \<open>
  C1. The classification is exhaustive and exclusive with the fixed thresholds, in both
  files: the pair (color, tip) is (green, Adventure Ready!) exactly when the score is at
  least 80, (yellow, Proceed with Caution) exactly when it is at least 50 and below 80,
  and (red, Reroute Recommended) exactly when it is below 50. In particular 80 is green,
  79.999 and 50 are yellow, 49.999 is red.
\<close>

theorem classification_thresholds:
  "((app_color s, app_tip s) = (''green'', ''Adventure Ready!'')) = (s \<ge> 80)
   \<and> ((app_color s, app_tip s) = (''yellow'', ''Proceed with Caution'')) = (50 \<le> s \<and> s < 80)
   \<and> ((app_color s, app_tip s) = (''red'', ''Reroute Recommended'')) = (s < 50)
   \<and> (app_color s = ''green'') = (s \<ge> 80)
   \<and> (app_color s = ''yellow'') = (50 \<le> s \<and> s < 80)
   \<and> (app_color s = ''red'') = (s < 50)
   \<and> (app_tip s = ''Adventure Ready!'') = (s \<ge> 80)
   \<and> (app_tip s = ''Proceed with Caution'') = (50 \<le> s \<and> s < 80)
   \<and> (app_tip s = ''Reroute Recommended'') = (s < 50)
   \<and> (safety_score_color s, safety_score_tip s) = (app_color s, app_tip s)
   \<and> (app_color 80, app_tip 80) = (''green'', ''Adventure Ready!'')
   \<and> (app_color 79.999, app_tip 79.999) = (''yellow'', ''Proceed with Caution'')
   \<and> (app_color 50, app_tip 50) = (''yellow'', ''Proceed with Caution'')
   \<and> (app_color 49.999, app_tip 49.999) = (''red'', ''Reroute Recommended'')"
  by (simp add: app_color_def app_tip_def safety_score_color_def safety_score_tip_def)

subsection \<open>Helper lemmas\<close>

lemma bind_Inl [simp]: "bind (Inl e) f = Inl e"
  by (simp add: bind_def)

lemma bind_Inr [simp]: "bind (Inr x) f = f x"
  by (simp add: bind_def)

lemma bind_eq_Inr: "(bind m f = Inr y) = (\<exists>x. m = Inr x \<and> f x = Inr y)"
  by (cases m) simp_all

lemma bind_eq_Inl: "(bind m f = Inl e) = (m = Inl e \<or> (\<exists>x. m = Inr x \<and> f x = Inl e))"
  by (cases m) simp_all

lemma jsonify_success_payload:
  "jsonify [(''score'', PyFloat s), (''color'', PyStr c), (''tip'', PyStr t)] =
     Inr (JDict [(''score'', JFloat s), (''color'', JStr c), (''tip'', JStr t)])"
  by (simp add: jsonify_def)

lemma jsonify_fail_open_payload:
  "jsonify [(''error'', PyStr m), (''score'', PyInt 85), (''color'', PyStr ''green''),
            (''tip'', PyStr ''Adventure Ready!'')] =
     Inr (JDict [(''error'', JStr m), (''score'', JInt 85), (''color'', JStr ''green''),
                 (''tip'', JStr ''Adventure Ready!'')])"
  by (simp add: jsonify_def)

lemma jsonify_numpy_bool:
  "jsonify [(''anomaly'', NpBool b)] =
     Inl (TypeError ''Object of type bool_ is not JSON serializable'')"
  by (simp add: jsonify_def)

lemma jsonify_fallback_payload:
  "jsonify [(''error'', PyStr m), (''anomaly'', PyBool b)] =
     Inr (JDict [(''error'', JStr m), (''anomaly'', JBool b)])"
  by (simp add: jsonify_def)

lemma toy_predict [simp]:
  "predict toy_library m a g = (Inr (map (\<lambda>row. prediction m) a), g)"
  by (simp add: toy_library_def)

lemma toy_np_array [simp]: "np_array toy_library = Inr"
  by (simp add: toy_library_def)

subsection \<open>The handler of /predict-safety\<close>

lemma predict_safety_try_Inl:
  "(fst (predict_safety_try lib st rq g) = Inl e) =
     (rq = Inl e \<or> (\<exists>data. rq = Inr data \<and>
        (feature_rows data = Inl e \<or> (\<exists>rows. feature_rows data = Inr rows \<and>
           (np_array lib rows = Inl e \<or> (\<exists>a. np_array lib rows = Inr a \<and>
              (fst (predict lib (regressor st) a g) = Inl e \<or>
                 (\<exists>ps. fst (predict lib (regressor st) a g) = Inr ps
                    \<and> first_item ps = Inl e))))))))"
  by (auto simp add: predict_safety_try_def features_def bind_eq_Inl bind_eq_Inr
      jsonify_success_payload split: sum.splits prod.splits)

lemma predict_safety_try_Inr:
  "(fst (predict_safety_try lib st rq g) = Inr r) =
     (\<exists>data a ps s. rq = Inr data \<and> features lib data = Inr a
        \<and> fst (predict lib (regressor st) a g) = Inr (s # ps)
        \<and> r = \<lparr>status = 200, body = JDict [(''score'', JFloat s),
                 (''color'', JStr (app_color s)), (''tip'', JStr (app_tip s))]\<rparr>)"
proof
  assume "fst (predict_safety_try lib st rq g) = Inr r"
  then obtain data a xs s where a: "rq = Inr data" "features lib data = Inr a"
      "fst (predict lib (regressor st) a g) = Inr xs" "first_item xs = Inr s"
      "r = \<lparr>status = 200, body = JDict [(''score'', JFloat s),
                 (''color'', JStr (app_color s)), (''tip'', JStr (app_tip s))]\<rparr>"
    by (auto simp add: predict_safety_try_def bind_eq_Inr jsonify_success_payload
        split: sum.splits prod.splits)
  from a(4) obtain ps where "xs = s # ps" by (cases xs) auto
  with a show "\<exists>data a ps s. rq = Inr data \<and> features lib data = Inr a
        \<and> fst (predict lib (regressor st) a g) = Inr (s # ps)
        \<and> r = \<lparr>status = 200, body = JDict [(''score'', JFloat s),
                 (''color'', JStr (app_color s)), (''tip'', JStr (app_tip s))]\<rparr>"
    by blast
next
  assume "\<exists>data a ps s. rq = Inr data \<and> features lib data = Inr a
        \<and> fst (predict lib (regressor st) a g) = Inr (s # ps)
        \<and> r = \<lparr>status = 200, body = JDict [(''score'', JFloat s),
                 (''color'', JStr (app_color s)), (''tip'', JStr (app_tip s))]\<rparr>"
  then show "fst (predict_safety_try lib st rq g) = Inr r"
    by (auto simp add: predict_safety_try_def jsonify_success_payload split: prod.splits)
qed

lemma predict_safety_after_failure:
  "fst (predict_safety_try lib st rq g) = Inl e \<Longrightarrow>
   fst (predict_safety lib st rq g) =
     Inr \<lparr>status = 500,
          body = JDict [(''error'', JStr (str_exn e)), (''score'', JInt 85),
                        (''color'', JStr ''green''), (''tip'', JStr ''Adventure Ready!'')]\<rparr>"
  by (cases "predict_safety_try lib st rq g")
     (simp add: predict_safety_def jsonify_fail_open_payload)

lemma predict_safety_after_success:
  "fst (predict_safety_try lib st rq g) = Inr r \<Longrightarrow> fst (predict_safety lib st rq g) = Inr r"
  by (cases "predict_safety_try lib st rq g") (simp add: predict_safety_def)




lemma feature_rows_dict:
  "feature_rows (JDict kvs) =
     (case map_of kvs ''risk'' of None \<Rightarrow> Inl (KeyError ''risk'') | Some r \<Rightarrow>
       (case map_of kvs ''speed'' of None \<Rightarrow> Inl (KeyError ''speed'') | Some s \<Rightarrow>
         (case map_of kvs ''weather'' of None \<Rightarrow> Inl (KeyError ''weather'') | Some w \<Rightarrow>
           (case map_of kvs ''crowd'' of None \<Rightarrow> Inl (KeyError ''crowd'') | Some c \<Rightarrow>
              Inr [[r, s, w, c]]))))"
  by (simp add: feature_rows_def split: option.splits)

lemma feature_rows_not_dict:
  "(\<And>kvs. data \<noteq> JDict kvs) \<Longrightarrow> \<exists>msg. feature_rows data = Inl (TypeError msg)"
  by (cases data) (auto simp add: feature_rows_def)

lemma feature_rows_missing_weather:
  "map_of kvs ''weather'' = None \<Longrightarrow> \<exists>k. feature_rows (JDict kvs) = Inl (KeyError k)"
  by (simp add: feature_rows_dict split: option.splits)

text \<open>
  C2. Whatever stage of the \<^verbatim>\<open>/predict-safety\<close> pipeline raises (reading the request
  body, a missing field or a body that is not an object, building the array, the model's
  prediction, taking the first prediction), the handler does not let the exception out:
  it returns status 500 with the payload error (the message of the exception), score 85,
  color green, tip Adventure Ready!. In particular a body without the key weather gets
  that payload, with the quoted name of the first missing key as the error.
\<close>

theorem predict_safety_fail_open:
  "((request_json = Inl e \<or> (\<exists>data. request_json = Inr data \<and>
        (feature_rows data = Inl e \<or> (\<exists>rows. feature_rows data = Inr rows \<and>
           (np_array lib rows = Inl e \<or> (\<exists>a. np_array lib rows = Inr a \<and>
              (fst (predict lib (regressor st) a g) = Inl e \<or>
                 (\<exists>ps. fst (predict lib (regressor st) a g) = Inr ps
                    \<and> first_item ps = Inl e))))))))
     \<longrightarrow> fst (predict_safety lib st request_json g) =
           Inr \<lparr>status = 500,
                body = JDict [(''error'', JStr (str_exn e)), (''score'', JInt 85),
                              (''color'', JStr ''green''),
                              (''tip'', JStr ''Adventure Ready!'')]\<rparr>)
   \<and> (map_of kvs ''weather'' = None
     \<longrightarrow> (\<exists>k. fst (predict_safety lib st (Inr (JDict kvs)) g) =
           Inr \<lparr>status = 500,
                body = JDict [(''error'', JStr (quoted k)), (''score'', JInt 85),
                              (''color'', JStr ''green''),
                              (''tip'', JStr ''Adventure Ready!'')]\<rparr>))"
proof (intro conjI impI)
  assume "request_json = Inl e \<or> (\<exists>data. request_json = Inr data \<and>
        (feature_rows data = Inl e \<or> (\<exists>rows. feature_rows data = Inr rows \<and>
           (np_array lib rows = Inl e \<or> (\<exists>a. np_array lib rows = Inr a \<and>
              (fst (predict lib (regressor st) a g) = Inl e \<or>
                 (\<exists>ps. fst (predict lib (regressor st) a g) = Inr ps
                    \<and> first_item ps = Inl e)))))))"
  then have "fst (predict_safety_try lib st request_json g) = Inl e"
    by (simp only: predict_safety_try_Inl)
  then show "fst (predict_safety lib st request_json g) =
           Inr \<lparr>status = 500,
                body = JDict [(''error'', JStr (str_exn e)), (''score'', JInt 85),
                              (''color'', JStr ''green''),
                              (''tip'', JStr ''Adventure Ready!'')]\<rparr>"
    by (rule predict_safety_after_failure)
next
  assume absent: "map_of kvs ''weather'' = None"
  then obtain k where "feature_rows (JDict kvs) = Inl (KeyError k)"
    using feature_rows_missing_weather by blast
  then have "fst (predict_safety_try lib st (Inr (JDict kvs)) g) = Inl (KeyError k)"
    by (simp add: predict_safety_try_Inl)
  then have "fst (predict_safety lib st (Inr (JDict kvs)) g) =
           Inr \<lparr>status = 500,
                body = JDict [(''error'', JStr (quoted k)), (''score'', JInt 85),
                              (''color'', JStr ''green''),
                              (''tip'', JStr ''Adventure Ready!'')]\<rparr>"
    using predict_safety_after_failure [of lib st "Inr (JDict kvs)" g "KeyError k"] by simp
  then show "\<exists>k. fst (predict_safety lib st (Inr (JDict kvs)) g) =
           Inr \<lparr>status = 500,
                body = JDict [(''error'', JStr (quoted k)), (''score'', JInt 85),
                              (''color'', JStr ''green''),
                              (''tip'', JStr ''Adventure Ready!'')]\<rparr>"
    by blast
qed

theorem predict_safety_fail_open_witness:
  "feature_rows (JDict [(''risk'', JFloat 0.3), (''speed'', JFloat 0.5), (''crowd'', JInt 2)])
     = Inl (KeyError ''weather'')
   \<and> map_of [(''risk'', JFloat 0.3), (''speed'', JFloat 0.5), (''crowd'', JInt 2)] ''weather'' = None
   \<and> fst (predict_safety toy_library \<lparr>regressor = Toy 80 42, anomaly_detector = Toy 80 1\<rparr>
        (Inr (JDict [(''risk'', JFloat 0.3), (''speed'', JFloat 0.5), (''crowd'', JInt 2)]))
        (0 :: nat)) =
      Inr \<lparr>status = 500,
           body = JDict [(''error'', JStr (quoted ''weather'')), (''score'', JInt 85),
                         (''color'', JStr ''green''), (''tip'', JStr ''Adventure Ready!'')]\<rparr>"
proof -
  let ?kvs = "[(''risk'', JFloat 0.3), (''speed'', JFloat 0.5), (''crowd'', JInt 2)]"
  have h1: "feature_rows (JDict ?kvs) = Inl (KeyError ''weather'')"
    by (simp add: feature_rows_dict)
  have h2: "map_of ?kvs ''weather'' = None"
    by simp
  from h1 h2 show ?thesis
    using predict_safety_fail_open [of "Inr (JDict ?kvs)" "KeyError ''weather''" toy_library
        "\<lparr>regressor = Toy 80 42, anomaly_detector = Toy 80 1\<rparr>" 0 ?kvs]
    by simp
qed

text \<open>
  C9. Every response of \<^verbatim>\<open>/predict-safety\<close>, on the success path and on the error
  path alike, is returned (no exception leaves the handler) and carries a color and a tip
  that are the classification of the score it carries, which is one of the three fixed
  pairs; the error payload's score 85 classifies to green and Adventure Ready!.
\<close>

theorem predict_safety_response_consistent:
  "\<exists>r kvs s. fst (predict_safety lib st request_json g) = Inr r \<and> body r = JDict kvs
     \<and> (map_of kvs ''score'' = Some (JFloat s)
          \<or> map_of kvs ''score'' = Some (JInt 85) \<and> s = 85)
     \<and> map_of kvs ''color'' = Some (JStr (app_color s))
     \<and> map_of kvs ''tip'' = Some (JStr (app_tip s))
     \<and> ((app_color s, app_tip s) = (''green'', ''Adventure Ready!'')
          \<or> (app_color s, app_tip s) = (''yellow'', ''Proceed with Caution'')
          \<or> (app_color s, app_tip s) = (''red'', ''Reroute Recommended''))"
proof (cases "fst (predict_safety_try lib st request_json g)")
  case (Inl e)
  then have "fst (predict_safety lib st request_json g) =
     Inr \<lparr>status = 500,
          body = JDict [(''error'', JStr (str_exn e)), (''score'', JInt 85),
                        (''color'', JStr ''green''), (''tip'', JStr ''Adventure Ready!'')]\<rparr>"
    by (rule predict_safety_after_failure)
  then show ?thesis
    by (simp add: app_color_def app_tip_def)
next
  case (Inr r)
  then obtain s where r: "r = \<lparr>status = 200, body = JDict [(''score'', JFloat s),
                 (''color'', JStr (app_color s)), (''tip'', JStr (app_tip s))]\<rparr>"
    by (auto simp add: predict_safety_try_Inr)
  have "fst (predict_safety lib st request_json g) = Inr r"
    using Inr by (rule predict_safety_after_success)
  moreover have "(app_color s, app_tip s) = (''green'', ''Adventure Ready!'')
          \<or> (app_color s, app_tip s) = (''yellow'', ''Proceed with Caution'')
          \<or> (app_color s, app_tip s) = (''red'', ''Reroute Recommended'')"
    by (simp add: app_color_def app_tip_def)
  ultimately show ?thesis
    using r by (intro exI [of _ r] exI [of _ "[(''score'', JFloat s),
                 (''color'', JStr (app_color s)), (''tip'', JStr (app_tip s))]"] exI [of _ s]) simp
qed



subsection \<open>The feature vector builder\<close>

text \<open>
  C8, as the code has it. The builder succeeds exactly on a body that is an object with
  the four keys, and the row it builds holds the four values as they are, in the order
  risk, speed, weather, crowd: nothing is coerced, checked or clamped. On an object it
  looks the keys up in that order and raises \<^verbatim>\<open>KeyError\<close> for the first absent one, so
  it raises exactly when one of the four keys is absent; on a body that is not an object
  it raises \<^verbatim>\<open>TypeError\<close>. The row then goes to \<^verbatim>\<open>np.array\<close>, and to the model's
  \<^verbatim>\<open>predict\<close>, which are the only places where a value that is not a number can be
  refused.
\<close>

theorem feature_rows_contract:
  "(feature_rows data = Inr rows) =
     (\<exists>kvs r s w c. data = JDict kvs \<and> map_of kvs ''risk'' = Some r
        \<and> map_of kvs ''speed'' = Some s \<and> map_of kvs ''weather'' = Some w
        \<and> map_of kvs ''crowd'' = Some c \<and> rows = [[r, s, w, c]])
   \<and> feature_rows (JDict kvs) =
       (case map_of kvs ''risk'' of None \<Rightarrow> Inl (KeyError ''risk'') | Some r \<Rightarrow>
         (case map_of kvs ''speed'' of None \<Rightarrow> Inl (KeyError ''speed'') | Some s \<Rightarrow>
           (case map_of kvs ''weather'' of None \<Rightarrow> Inl (KeyError ''weather'') | Some w \<Rightarrow>
             (case map_of kvs ''crowd'' of None \<Rightarrow> Inl (KeyError ''crowd'') | Some c \<Rightarrow>
                Inr [[r, s, w, c]]))))
   \<and> (\<exists>k. feature_rows (JDict kvs) = Inl (KeyError k) \<and> map_of kvs k = None
          \<and> (k = ''risk'' \<or> k = ''speed'' \<or> k = ''weather'' \<or> k = ''crowd''))
      = (map_of kvs ''risk'' = None \<or> map_of kvs ''speed'' = None
          \<or> map_of kvs ''weather'' = None \<or> map_of kvs ''crowd'' = None)
   \<and> ((\<exists>kvs. data = JDict kvs) \<or> (\<exists>msg. feature_rows data = Inl (TypeError msg)))
   \<and> features lib data =
        (case feature_rows data of Inl e \<Rightarrow> Inl e | Inr rows \<Rightarrow> np_array lib rows)"
proof (intro conjI)
  show "(feature_rows data = Inr rows) =
     (\<exists>kvs r s w c. data = JDict kvs \<and> map_of kvs ''risk'' = Some r
        \<and> map_of kvs ''speed'' = Some s \<and> map_of kvs ''weather'' = Some w
        \<and> map_of kvs ''crowd'' = Some c \<and> rows = [[r, s, w, c]])"
  proof (cases data)
    case (JDict kvs)
    then show ?thesis
      by (auto simp add: feature_rows_dict split: option.splits)
  qed (simp_all add: feature_rows_def)
  show "feature_rows (JDict kvs) =
       (case map_of kvs ''risk'' of None \<Rightarrow> Inl (KeyError ''risk'') | Some r \<Rightarrow>
         (case map_of kvs ''speed'' of None \<Rightarrow> Inl (KeyError ''speed'') | Some s \<Rightarrow>
           (case map_of kvs ''weather'' of None \<Rightarrow> Inl (KeyError ''weather'') | Some w \<Rightarrow>
             (case map_of kvs ''crowd'' of None \<Rightarrow> Inl (KeyError ''crowd'') | Some c \<Rightarrow>
                Inr [[r, s, w, c]]))))"
    by (rule feature_rows_dict)
  show "(\<exists>k. feature_rows (JDict kvs) = Inl (KeyError k) \<and> map_of kvs k = None
          \<and> (k = ''risk'' \<or> k = ''speed'' \<or> k = ''weather'' \<or> k = ''crowd''))
      = (map_of kvs ''risk'' = None \<or> map_of kvs ''speed'' = None
          \<or> map_of kvs ''weather'' = None \<or> map_of kvs ''crowd'' = None)"
    by (auto simp add: feature_rows_dict split: option.splits)
  show "(\<exists>kvs. data = JDict kvs) \<or> (\<exists>msg. feature_rows data = Inl (TypeError msg))"
    using feature_rows_not_dict [of data] by blast
  show "features lib data =
        (case feature_rows data of Inl e \<Rightarrow> Inl e | Inr rows \<Rightarrow> np_array lib rows)"
    by (simp add: features_def bind_def)
qed

text \<open>
  C8 as stated fails: a body whose risk is the string high (not coercible to a number),
  with an out-of-range weather and crowd, goes through the builder without an exception,
  and with a model that accepts the array the handler answers 200.
\<close>

theorem feature_rows_accepts_non_numeric:
  "features toy_library
      (JDict [(''risk'', JStr ''high''), (''speed'', JFloat 0.5), (''weather'', JFloat 7.5),
              (''crowd'', JInt (- 3))])
     = Inr [[JStr ''high'', JFloat 0.5, JFloat 7.5, JInt (- 3)]]
   \<and> fst (predict_safety toy_library \<lparr>regressor = Toy 80 90, anomaly_detector = Toy 80 1\<rparr>
      (Inr (JDict [(''risk'', JStr ''high''), (''speed'', JFloat 0.5), (''weather'', JFloat 7.5),
              (''crowd'', JInt (- 3))])) 0)
     = Inr \<lparr>status = 200, body = JDict [(''score'', JFloat 90), (''color'', JStr ''green''),
              (''tip'', JStr ''Adventure Ready!'')]\<rparr>"
  by (simp add: predict_safety_def predict_safety_try_def features_def feature_rows_dict
        jsonify_success_payload app_color_def app_tip_def)

subsection \<open>The handler of /detect-anomaly\<close>

lemma detect_anomaly_try_raises:
  "\<exists>e. fst (detect_anomaly_try lib st rq g) = Inl e"
  by (simp add: detect_anomaly_try_def bind_def app_anomaly_def jsonify_numpy_bool
      split: sum.splits prod.splits)

lemma detect_anomaly_after_failure:
  "fst (detect_anomaly_try lib st rq g) = Inl e \<Longrightarrow>
   fst (detect_anomaly lib st rq g) =
     (case rq of
        Inl e0 \<Rightarrow> Inl (UnboundLocalError (''cannot access local variable '' @ quoted ''data''
                      @ '' where it is not associated with a value''))
      | Inr data \<Rightarrow>
          bind (subscript data ''risk'') (\<lambda>risk.
          bind (greater_than risk (3602879701896397 / 2 ^ 52)) (\<lambda>flag.
          Inr \<lparr>status = 500,
               body = JDict [(''error'', JStr (str_exn e)), (''anomaly'', JBool flag)]\<rparr>)))"
  by (cases "detect_anomaly_try lib st rq g")
     (simp add: detect_anomaly_def jsonify_fallback_payload split: sum.splits)

lemma subscript_not_dict:
  "(\<forall>kvs. data \<noteq> JDict kvs) \<Longrightarrow> \<exists>msg. subscript data k = Inl (TypeError msg)"
  by (cases data) auto

lemma greater_than_not_number:
  "(\<forall>x. r \<noteq> JFloat x) \<Longrightarrow> (\<forall>i. r \<noteq> JInt i) \<Longrightarrow> (\<forall>b. r \<noteq> JBool b) \<Longrightarrow>
     \<exists>msg. greater_than r c = Inl (TypeError msg)"
  by (cases r) auto

text \<open>
  C3, as the code has it. When the try block of \<^verbatim>\<open>/detect-anomaly\<close> raises \<open>e\<close>, the
  handler answers status 500 with error (the message of \<open>e\<close>) and anomaly (risk > 0.8,
  where 0.8 is the double \<open>3602879701896397 / 2 ^ 52\<close>) exactly when the body is an object
  whose risk is a number (float, int, or a bool, which compares as 0 or 1). In every
  other case (\<^verbatim>\<open>request.json\<close> raised, the body is not an object, risk is absent, risk
  is null, a string, a list or an object) building the fallback itself raises, and
  \<^verbatim>\<open>UnboundLocalError\<close>, \<^verbatim>\<open>TypeError\<close> or \<^verbatim>\<open>KeyError\<close> leaves the handler.
\<close>

theorem detect_anomaly_fallback:
  "fst (detect_anomaly_try lib st request_json g) = Inl e \<Longrightarrow>
     ((\<exists>kvs. request_json = Inr (JDict kvs) \<and>
          (map_of kvs ''risk'' = Some (JFloat x) \<and> flag = (x > 3602879701896397 / 2 ^ 52)
           \<or> map_of kvs ''risk'' = Some (JInt i)
              \<and> flag = (real_of_int i > 3602879701896397 / 2 ^ 52)
           \<or> map_of kvs ''risk'' = Some (JBool flag)))
        \<longrightarrow> fst (detect_anomaly lib st request_json g) =
              Inr \<lparr>status = 500,
                   body = JDict [(''error'', JStr (str_exn e)), (''anomaly'', JBool flag)]\<rparr>)
   \<and> (\<not> (\<exists>kvs. request_json = Inr (JDict kvs) \<and>
          ((\<exists>y. map_of kvs ''risk'' = Some (JFloat y))
           \<or> (\<exists>j. map_of kvs ''risk'' = Some (JInt j))
           \<or> (\<exists>b. map_of kvs ''risk'' = Some (JBool b))))
        \<longrightarrow> (\<exists>e'. fst (detect_anomaly lib st request_json g) = Inl e'
              \<and> (e' = KeyError ''risk'' \<or> (\<exists>msg. e' = TypeError msg)
                   \<or> (\<exists>msg. e' = UnboundLocalError msg))))"
proof (intro conjI impI)
  assume failed: "fst (detect_anomaly_try lib st request_json g) = Inl e"
  assume "\<exists>kvs. request_json = Inr (JDict kvs) \<and>
          (map_of kvs ''risk'' = Some (JFloat x) \<and> flag = (x > 3602879701896397 / 2 ^ 52)
           \<or> map_of kvs ''risk'' = Some (JInt i)
              \<and> flag = (real_of_int i > 3602879701896397 / 2 ^ 52)
           \<or> map_of kvs ''risk'' = Some (JBool flag))"
  then show "fst (detect_anomaly lib st request_json g) =
              Inr \<lparr>status = 500,
                   body = JDict [(''error'', JStr (str_exn e)), (''anomaly'', JBool flag)]\<rparr>"
    using detect_anomaly_after_failure [OF failed] by auto
next
  assume failed: "fst (detect_anomaly_try lib st request_json g) = Inl e"
  assume other: "\<not> (\<exists>kvs. request_json = Inr (JDict kvs) \<and>
          ((\<exists>y. map_of kvs ''risk'' = Some (JFloat y))
           \<or> (\<exists>j. map_of kvs ''risk'' = Some (JInt j))
           \<or> (\<exists>b. map_of kvs ''risk'' = Some (JBool b))))"
  show "\<exists>e'. fst (detect_anomaly lib st request_json g) = Inl e'
              \<and> (e' = KeyError ''risk'' \<or> (\<exists>msg. e' = TypeError msg)
                   \<or> (\<exists>msg. e' = UnboundLocalError msg))"
  proof (cases request_json)
    case (Inl e0)
    then show ?thesis
      using detect_anomaly_after_failure [OF failed] by simp
  next
    case (Inr data)
    show ?thesis
    proof (cases "\<exists>kvs. data = JDict kvs")
      case False
      then obtain msg where "subscript data ''risk'' = Inl (TypeError msg)"
        using subscript_not_dict [of data "''risk''"] by blast
      then show ?thesis
        using detect_anomaly_after_failure [OF failed] Inr by simp
    next
      case True
      then obtain kvs where data: "data = JDict kvs" by blast
      show ?thesis
      proof (cases "map_of kvs ''risk''")
        case None
        then show ?thesis
          using detect_anomaly_after_failure [OF failed] Inr data by simp
      next
        case (Some r)
        with other Inr data
        have "\<forall>x. r \<noteq> JFloat x" "\<forall>i. r \<noteq> JInt i" "\<forall>b. r \<noteq> JBool b"
          by auto
        then obtain msg
          where "greater_than r (3602879701896397 / 2 ^ 52) = Inl (TypeError msg)"
          using greater_than_not_number [of r "3602879701896397 / 2 ^ 52"] by blast
        then show ?thesis
          using detect_anomaly_after_failure [OF failed] Inr data Some by simp
      qed
    qed
  qed
qed

theorem detect_anomaly_fallback_witness:
  "fst (detect_anomaly_try toy_library \<lparr>regressor = Toy 80 90, anomaly_detector = Toy 80 1\<rparr>
      (Inr (JDict [(''risk'', JFloat 0.875), (''speed'', JFloat 0.5)])) 0)
     = Inl (KeyError ''weather'')
   \<and> fst (detect_anomaly toy_library \<lparr>regressor = Toy 80 90, anomaly_detector = Toy 80 1\<rparr>
      (Inr (JDict [(''risk'', JFloat 0.875), (''speed'', JFloat 0.5)])) 0)
     = Inr \<lparr>status = 500,
            body = JDict [(''error'', JStr (quoted ''weather'')), (''anomaly'', JBool True)]\<rparr>
   \<and> fst (detect_anomaly_try toy_library \<lparr>regressor = Toy 80 90, anomaly_detector = Toy 80 1\<rparr>
      (Inr (JDict [(''risk'', JFloat (3602879701896397 / 2 ^ 52))])) 0)
     = Inl (KeyError ''speed'')
   \<and> fst (detect_anomaly toy_library \<lparr>regressor = Toy 80 90, anomaly_detector = Toy 80 1\<rparr>
      (Inr (JDict [(''risk'', JFloat (3602879701896397 / 2 ^ 52))])) 0)
     = Inr \<lparr>status = 500,
            body = JDict [(''error'', JStr (quoted ''speed'')), (''anomaly'', JBool False)]\<rparr>
   \<and> fst (detect_anomaly_try toy_library \<lparr>regressor = Toy 80 90, anomaly_detector = Toy 80 1\<rparr>
      (Inr (JList [])) 0) = Inl (TypeError ''list indices must be integers or slices, not str'')
   \<and> (\<exists>e'. fst (detect_anomaly toy_library \<lparr>regressor = Toy 80 90, anomaly_detector = Toy 80 1\<rparr>
      (Inr (JList [])) 0) = Inl e'
        \<and> (e' = KeyError ''risk'' \<or> (\<exists>msg. e' = TypeError msg)
                   \<or> (\<exists>msg. e' = UnboundLocalError msg)))"
proof -
  let ?st = "\<lparr>regressor = Toy 80 90, anomaly_detector = Toy 80 1\<rparr>"
  let ?kvs = "[(''risk'', JFloat 0.875), (''speed'', JFloat 0.5)]"
  let ?kvs8 = "[(''risk'', JFloat (3602879701896397 / 2 ^ 52))]"
  have h1: "fst (detect_anomaly_try toy_library ?st (Inr (JDict ?kvs)) 0)
      = Inl (KeyError ''weather'')"
    by (simp add: detect_anomaly_try_def features_def feature_rows_dict)
  have h3: "fst (detect_anomaly_try toy_library ?st (Inr (JDict ?kvs8)) 0)
      = Inl (KeyError ''speed'')"
    by (simp add: detect_anomaly_try_def features_def feature_rows_dict)
  have h2: "fst (detect_anomaly_try toy_library ?st (Inr (JList [])) 0)
      = Inl (TypeError ''list indices must be integers or slices, not str'')"
    by (simp add: detect_anomaly_try_def features_def feature_rows_def)
  from detect_anomaly_fallback [OF h1, of "0.875" "True" 0]
  have r1: "fst (detect_anomaly toy_library ?st (Inr (JDict ?kvs)) 0)
     = Inr \<lparr>status = 500,
            body = JDict [(''error'', JStr (quoted ''weather'')), (''anomaly'', JBool True)]\<rparr>"
    by simp
  from detect_anomaly_fallback [OF h3, of "3602879701896397 / 2 ^ 52" "False" 0]
  have r3: "fst (detect_anomaly toy_library ?st (Inr (JDict ?kvs8)) 0)
     = Inr \<lparr>status = 500,
            body = JDict [(''error'', JStr (quoted ''speed'')), (''anomaly'', JBool False)]\<rparr>"
    by simp
  from detect_anomaly_fallback [OF h2]
  have r2: "\<exists>e'. fst (detect_anomaly toy_library ?st (Inr (JList [])) 0) = Inl e'
        \<and> (e' = KeyError ''risk'' \<or> (\<exists>msg. e' = TypeError msg)
                   \<or> (\<exists>msg. e' = UnboundLocalError msg))"
    by simp
  from h1 h2 h3 r1 r2 r3 show ?thesis by blast
qed

text \<open>
  C3 as stated fails: the pipeline fails (weather is missing), the risk field is there,
  and the handler raises \<^verbatim>\<open>TypeError\<close> instead of returning the fallback payload, because
  the string cannot be compared with 0.8.
\<close>

theorem detect_anomaly_fallback_raises:
  "fst (detect_anomaly_try toy_library \<lparr>regressor = Toy 80 90, anomaly_detector = Toy 80 1\<rparr>
      (Inr (JDict [(''risk'', JStr ''high''), (''speed'', JFloat 0.5)])) 0)
     = Inl (KeyError ''weather'')
   \<and> map_of [(''risk'', JStr ''high''), (''speed'', JFloat 0.5)] ''risk'' = Some (JStr ''high'')
   \<and> fst (detect_anomaly toy_library \<lparr>regressor = Toy 80 90, anomaly_detector = Toy 80 1\<rparr>
      (Inr (JDict [(''risk'', JStr ''high''), (''speed'', JFloat 0.5)])) 0)
     = Inl (TypeError (quoted ''>'' @ '' not supported between instances of ''
                      @ quoted ''str'' @ '' and '' @ quoted ''float''))"
  by (simp add: detect_anomaly_def detect_anomaly_try_def features_def feature_rows_dict)

text \<open>
  C4. The verdict is the numpy boolean (label = -1), and \<^verbatim>\<open>jsonify\<close> cannot serialise
  it: the try block of \<^verbatim>\<open>/detect-anomaly\<close> raises on every request, so the success
  response (status 200, anomaly) is never produced. For a complete body that the model
  labels -1 the handler answers status 500 with the serialisation error and the fallback
  value risk > 0.8, here false. (\<^verbatim>\<open>predict_safety\<close> converts its numpy score with
  \<^verbatim>\<open>float\<close> before \<^verbatim>\<open>jsonify\<close>; no such conversion is applied to the verdict.)
\<close>

theorem detect_anomaly_success_unreachable:
  "app_anomaly l = NpBool (l = - 1)
   \<and> jsonify [(''anomaly'', app_anomaly l)]
       = Inl (TypeError ''Object of type bool_ is not JSON serializable'')
   \<and> (\<exists>e. fst (detect_anomaly_try lib st request_json g) = Inl e)
   \<and> fst (predict toy_library (Toy 80 (- 1))
        [[JFloat 0.1, JFloat 0.01, JFloat 0.5, JFloat 0.5]] 0) = Inr [- 1]
   \<and> fst (detect_anomaly toy_library \<lparr>regressor = Toy 80 90, anomaly_detector = Toy 80 (- 1)\<rparr>
      (Inr (JDict [(''risk'', JFloat 0.1), (''speed'', JFloat 0.01), (''weather'', JFloat 0.5),
                   (''crowd'', JFloat 0.5)])) 0)
     = Inr \<lparr>status = 500,
            body = JDict [(''error'', JStr ''Object of type bool_ is not JSON serializable''),
                          (''anomaly'', JBool False)]\<rparr>"
proof (intro conjI)
  show "\<exists>e. fst (detect_anomaly_try lib st request_json g) = Inl e"
    by (rule detect_anomaly_try_raises)
qed (simp_all add: app_anomaly_def jsonify_numpy_bool detect_anomaly_def detect_anomaly_try_def
       features_def feature_rows_dict jsonify_fallback_payload)

subsection \<open>The two implementations\<close>

text \<open>
  C10. The two files agree: for every prediction the color and the tip computed in
  \<^verbatim>\<open>app.py\<close> are those computed in \<^verbatim>\<open>safety_score.py\<close>, and for every label the anomaly
  verdict of \<^verbatim>\<open>app.py\<close> is the one of \<^verbatim>\<open>safety_score.py\<close>.
\<close>

theorem implementations_agree:
  "app_color s = safety_score_color s \<and> app_tip s = safety_score_tip s
   \<and> app_anomaly l = safety_score_anomaly l"
  by (simp add: app_color_def safety_score_color_def app_tip_def safety_score_tip_def
      app_anomaly_def safety_score_anomaly_def)

subsection \<open>Startup\<close>

lemma rand_length: "length (fst (rand lib n g)) = n"
proof (induction n arbitrary: g)
  case 0
  then show ?case by simp
next
  case (Suc n)
  obtain x g1 where s: "random_sample lib g = (x, g1)" by (cases "random_sample lib g")
  obtain xs g2 where r: "rand lib n g1 = (xs, g2)" by (cases "rand lib n g1")
  from Suc [of g1] r have "length xs = n" by simp
  with s r show ?case by simp
qed

lemma randint_length: "length (fst (randint lib lo hi n g)) = n"
proof (induction n arbitrary: g)
  case 0
  then show ?case by simp
next
  case (Suc n)
  obtain x g1 where s: "random_integer lib lo hi g = (x, g1)"
    by (cases "random_integer lib lo hi g")
  obtain xs g2 where r: "randint lib lo hi n g1 = (xs, g2)"
    by (cases "randint lib lo hi n g1")
  from Suc [of g1] r have "length xs = n" by simp
  with s r show ?case by simp
qed

lemma random_sample_range:
  "0 \<le> fst (random_sample lib g) \<and> fst (random_sample lib g) < 1
   \<and> (\<exists>j. fst (random_sample lib g) = real j / 2 ^ 53)"
proof -
  obtain k g1 where b: "random_bits53 lib g = (k, g1)" by (cases "random_bits53 lib g")
  have "k mod 2 ^ 53 < (2 :: nat) ^ 53" by simp
  then have "real (k mod 2 ^ 53) < real ((2 :: nat) ^ 53)"
    by (simp only: of_nat_less_iff)
  then have "real (k mod 2 ^ 53) < 2 ^ 53" by simp
  then show ?thesis
    using b by (auto simp add: random_sample_def)
qed

lemma rand_range:
  "x \<in> set (fst (rand lib n g)) \<Longrightarrow> 0 \<le> x \<and> x < 1 \<and> (\<exists>j. x = real j / 2 ^ 53)"
proof (induction n arbitrary: g)
  case 0
  then show ?case by simp
next
  case (Suc n)
  obtain y g1 where s: "random_sample lib g = (y, g1)" by (cases "random_sample lib g")
  obtain ys g2 where r: "rand lib n g1 = (ys, g2)" by (cases "rand lib n g1")
  from Suc.prems s r have "x = y \<or> x \<in> set (fst (rand lib n g1))" by auto
  then show ?case
  proof
    assume "x = y"
    with random_sample_range [of lib g] s show ?thesis by simp
  next
    assume "x \<in> set (fst (rand lib n g1))"
    then show ?thesis by (rule Suc.IH)
  qed
qed

lemma rand_append:
  "rand lib (m + n) g =
     (case rand lib m g of (xs, g1) \<Rightarrow> (case rand lib n g1 of (ys, g2) \<Rightarrow> (xs @ ys, g2)))"
proof (induction m arbitrary: g)
  case 0
  then show ?case by (simp split: prod.splits)
next
  case (Suc m)
  obtain x g1 where s: "random_sample lib g = (x, g1)" by (cases "random_sample lib g")
  show ?case
    using Suc [of g1] s by (simp split: prod.splits)
qed

text \<open>When both files load, startup trains nothing and writes nothing.\<close>

lemma startup_loaded:
  "load regressor_path fs = Inr r \<Longrightarrow> load anomaly_path fs = Inr a \<Longrightarrow>
   startup lib (fs, g) = (Inr \<lparr>regressor = r, anomaly_detector = a\<rparr>, (fs, g))"
  by (simp add: startup_def)

lemma startup_training:
  assumes "load regressor_path fs = Inl (FileNotFoundError msg)
           \<or> (\<exists>m. load regressor_path fs = Inr m) \<and> load anomaly_path fs = Inl (FileNotFoundError msg)"
    and "train lib g = (st, g')"
  shows "startup lib (fs, g) =
     (case persist st fs of (Inl e, fs') \<Rightarrow> (Inl e, (fs', g')) | (Inr u, fs') \<Rightarrow> (Inr st, (fs', g')))"
  using assms by (auto simp add: startup_def)

lemma startup_read_failure:
  assumes "load regressor_path fs = Inl e
           \<or> (\<exists>m. load regressor_path fs = Inr m) \<and> load anomaly_path fs = Inl e"
    and "\<forall>msg. e \<noteq> FileNotFoundError msg"
  shows "startup lib (fs, g) = (Inl e, (fs, g))"
  using assms by (cases e) (auto simp add: startup_def)

lemma persist_failure:
  "(fst (persist st fs) = Inl e) =
     (makedirs models_dir fs = Inl e
      \<or> (\<exists>fs1. makedirs models_dir fs = Inr fs1
           \<and> (dump (regressor st) regressor_path fs1 = Inl e
              \<or> (\<exists>fs2. dump (regressor st) regressor_path fs1 = Inr fs2
                   \<and> dump (anomaly_detector st) anomaly_path fs2 = Inl e))))"
  by (auto simp add: persist_def split: sum.splits)

lemma persist_success:
  assumes "models_dir \<in> dirs fs \<or> write_fault fs models_dir = None \<and> files fs models_dir = None"
    and "write_fault fs regressor_path = None" and "write_fault fs anomaly_path = None"
  shows "persist st fs =
     (Inr (), fs\<lparr>dirs := insert models_dir (dirs fs),
                 files := (files fs)(regressor_path \<mapsto> Pickle (regressor st),
                                     anomaly_path \<mapsto> Pickle (anomaly_detector st))\<rparr>)"
  using assms by (auto simp add: persist_def makedirs_def dump_def insert_absorb)

text \<open>
  C5, as the code has it. Startup attempts to load both files. When the regressor file is
  absent, or it loads and the detector file is absent, startup synthesizes a data set of
  100 samples: four feature columns of 100 floats, which are 400 successive draws of the
  generator (no draw is used twice), each the uniform variate \<open>j / 2 ^ 53\<close> of
  \<^verbatim>\<open>np.random.rand\<close>, in [0,1), and a target column of 100 integers drawn by
  \<^verbatim>\<open>np.random.randint(0, 100, 100)\<close>. It splits the data with test size 0.2 and fits the
  regressor on the training part and its targets and the detector on the training part,
  not on the data set itself. When moreover the directory models exists or can be
  created and the two model files can be written, it creates the directory, writes both
  model files, and returns the two models, which the handlers use from then on.
\<close>

theorem startup_trains_when_absent:
  assumes absent: "files fs regressor_path = None
       \<or> (\<exists>m. files fs regressor_path = Some (Pickle m)) \<and> files fs anomaly_path = None"
    and dir_ok: "models_dir \<in> dirs fs
       \<or> write_fault fs models_dir = None \<and> files fs models_dir = None"
    and writable: "write_fault fs regressor_path = None" "write_fault fs anomaly_path = None"
  shows "\<exists>c1 c2 c3 c4 g4 y g5 X_train X_test y_train y_test g6 reg g7 det g8.
      rand lib 400 g = (c1 @ c2 @ c3 @ c4, g4)
    \<and> length c1 = 100 \<and> length c2 = 100 \<and> length c3 = 100 \<and> length c4 = 100
    \<and> (\<forall>x \<in> set (c1 @ c2 @ c3 @ c4). 0 \<le> x \<and> x < 1 \<and> (\<exists>j. x = real j / 2 ^ 53))
    \<and> randint lib 0 100 100 g4 = (y, g5) \<and> length y = 100
    \<and> train_test_split lib [c1, c2, c3, c4] y (3602879701896397 / 2 ^ 54) g5
        = ((X_train, X_test, y_train, y_test), g6)
    \<and> fit_regressor lib X_train y_train g6 = (reg, g7)
    \<and> fit_isolation lib X_train g7 = (det, g8)
    \<and> startup lib (fs, g) =
        (Inr \<lparr>regressor = reg, anomaly_detector = det\<rparr>,
         (fs\<lparr>dirs := insert models_dir (dirs fs),
             files := (files fs)(regressor_path \<mapsto> Pickle reg, anomaly_path \<mapsto> Pickle det)\<rparr>,
          g8))"
proof -
  obtain c1 g1 where r1: "rand lib 100 g = (c1, g1)" by (cases "rand lib 100 g")
  obtain c2 g2 where r2: "rand lib 100 g1 = (c2, g2)" by (cases "rand lib 100 g1")
  obtain c3 g3 where r3: "rand lib 100 g2 = (c3, g3)" by (cases "rand lib 100 g2")
  obtain c4 g4 where r4: "rand lib 100 g3 = (c4, g4)" by (cases "rand lib 100 g3")
  obtain y g5 where r5: "randint lib 0 100 100 g4 = (y, g5)"
    by (cases "randint lib 0 100 100 g4")
  obtain q g6
    where sp0: "train_test_split lib [c1, c2, c3, c4] y (3602879701896397 / 2 ^ 54) g5 = (q, g6)"
    by (cases "train_test_split lib [c1, c2, c3, c4] y (3602879701896397 / 2 ^ 54) g5")
  obtain X_train X_test y_train y_test where q: "q = (X_train, X_test, y_train, y_test)"
    by (cases q)
  obtain reg g7 where fr: "fit_regressor lib X_train y_train g6 = (reg, g7)"
    by (cases "fit_regressor lib X_train y_train g6")
  obtain det g8 where fi: "fit_isolation lib X_train g7 = (det, g8)"
    by (cases "fit_isolation lib X_train g7")
  have len: "length c1 = 100" "length c2 = 100" "length c3 = 100" "length c4 = 100"
      "length y = 100"
    using rand_length [of lib 100 g] rand_length [of lib 100 g1] rand_length [of lib 100 g2]
      rand_length [of lib 100 g3] randint_length [of lib 0 100 100 g4] r1 r2 r3 r4 r5
    by simp_all
  have a34: "rand lib (100 + 100) g2 = (c3 @ c4, g4)"
    by (simp only: rand_append r3 r4 prod.case)
  have a234: "rand lib (100 + (100 + 100)) g1 = (c2 @ c3 @ c4, g4)"
    by (simp only: rand_append [of lib 100 "100 + 100"] r2 a34 prod.case)
  have "rand lib (100 + (100 + (100 + 100))) g = (c1 @ c2 @ c3 @ c4, g4)"
    by (simp only: rand_append [of lib 100 "100 + (100 + 100)"] r1 a234 prod.case)
  then have all: "rand lib 400 g = (c1 @ c2 @ c3 @ c4, g4)"
    by simp
  have range: "\<forall>x \<in> set (c1 @ c2 @ c3 @ c4). 0 \<le> x \<and> x < 1 \<and> (\<exists>j. x = real j / 2 ^ 53)"
  proof
    fix x
    assume "x \<in> set (c1 @ c2 @ c3 @ c4)"
    then have "x \<in> set (fst (rand lib 400 g))"
      using all by simp
    then show "0 \<le> x \<and> x < 1 \<and> (\<exists>j. x = real j / 2 ^ 53)"
      by (rule rand_range)
  qed
  have tr: "train lib g = (\<lparr>regressor = reg, anomaly_detector = det\<rparr>, g8)"
    using sp0 fr fi by (simp add: train_def synthesize_def r1 r2 r3 r4 r5 q)
  from absent have "load regressor_path fs = Inl (no_such_file regressor_path)
      \<or> (\<exists>m. load regressor_path fs = Inr m)
         \<and> load anomaly_path fs = Inl (no_such_file anomaly_path)"
    by (auto simp add: load_def)
  then have st: "startup lib (fs, g) =
     (case persist \<lparr>regressor = reg, anomaly_detector = det\<rparr> fs of
        (Inl e, fs') \<Rightarrow> (Inl e, (fs', g8))
      | (Inr u, fs') \<Rightarrow> (Inr \<lparr>regressor = reg, anomaly_detector = det\<rparr>, (fs', g8)))"
    using tr by (auto simp add: startup_def no_such_file_def)
  have "startup lib (fs, g) =
        (Inr \<lparr>regressor = reg, anomaly_detector = det\<rparr>,
         (fs\<lparr>dirs := insert models_dir (dirs fs),
             files := (files fs)(regressor_path \<mapsto> Pickle reg, anomaly_path \<mapsto> Pickle det)\<rparr>,
          g8))"
    using st persist_success [OF dir_ok writable, of "\<lparr>regressor = reg, anomaly_detector = det\<rparr>"]
    by simp
  with all range r5 len sp0 q fr fi show ?thesis
    by blast
qed

theorem startup_trains_when_absent_witness:
  "files (empty_filesystem :: toy_model filesystem) regressor_path = None
   \<and> write_fault (empty_filesystem :: toy_model filesystem) models_dir = None
   \<and> files (empty_filesystem :: toy_model filesystem) models_dir = None
   \<and> write_fault (empty_filesystem :: toy_model filesystem) regressor_path = None
   \<and> write_fault (empty_filesystem :: toy_model filesystem) anomaly_path = None
   \<and> (\<exists>reg det fs' g'. startup toy_library (empty_filesystem, 0) =
          (Inr \<lparr>regressor = reg, anomaly_detector = det\<rparr>, (fs', g'))
        \<and> files fs' regressor_path = Some (Pickle reg)
        \<and> files fs' anomaly_path = Some (Pickle det)
        \<and> models_dir \<in> dirs fs')"
proof -
  let ?fs = "empty_filesystem :: toy_model filesystem"
  have h1: "files ?fs regressor_path = None
       \<or> (\<exists>m. files ?fs regressor_path = Some (Pickle m)) \<and> files ?fs anomaly_path = None"
    by (simp add: empty_filesystem_def)
  have h2: "models_dir \<in> dirs ?fs
       \<or> write_fault ?fs models_dir = None \<and> files ?fs models_dir = None"
    by (simp add: empty_filesystem_def)
  have h3: "write_fault ?fs regressor_path = None" "write_fault ?fs anomaly_path = None"
    by (simp_all add: empty_filesystem_def)
  have anomaly_regressor: "anomaly_path \<noteq> regressor_path"
    by (simp add: anomaly_path_def regressor_path_def)
  from startup_trains_when_absent [OF h1 h2 h3, of toy_library 0]
  have "\<exists>reg det fs' g'. startup toy_library (empty_filesystem, 0) =
          (Inr \<lparr>regressor = reg, anomaly_detector = det\<rparr>, (fs', g'))
        \<and> files fs' regressor_path = Some (Pickle reg)
        \<and> files fs' anomaly_path = Some (Pickle det)
        \<and> models_dir \<in> dirs fs'"
    using anomaly_regressor by (elim exE conjE) (simp add: fun_upd_def)
  then show ?thesis
    by (simp add: empty_filesystem_def)
qed

lemma synthesize_lengths:
  "length (risk (fst (synthesize lib g))) = 100"
  "length (speed (fst (synthesize lib g))) = 100"
  "length (weather (fst (synthesize lib g))) = 100"
  "length (crowd (fst (synthesize lib g))) = 100"
  "length (score (fst (synthesize lib g))) = 100"
proof -
  obtain c1 g1 where r1: "rand lib 100 g = (c1, g1)" by (cases "rand lib 100 g")
  obtain c2 g2 where r2: "rand lib 100 g1 = (c2, g2)" by (cases "rand lib 100 g1")
  obtain c3 g3 where r3: "rand lib 100 g2 = (c3, g3)" by (cases "rand lib 100 g2")
  obtain c4 g4 where r4: "rand lib 100 g3 = (c4, g4)" by (cases "rand lib 100 g3")
  obtain y g5 where r5: "randint lib 0 100 100 g4 = (y, g5)"
    by (cases "randint lib 0 100 100 g4")
  have len: "length c1 = 100" "length c2 = 100" "length c3 = 100" "length c4 = 100"
      "length y = 100"
    using rand_length [of lib 100 g] rand_length [of lib 100 g1] rand_length [of lib 100 g2]
      rand_length [of lib 100 g3] randint_length [of lib 0 100 100 g4] r1 r2 r3 r4 r5
    by simp_all
  have "fst (synthesize lib g) =
      \<lparr>risk = c1, speed = c2, weather = c3, crowd = c4, score = y\<rparr>"
    by (simp add: synthesize_def r1 r2 r3 r4 r5)
  with len show "length (risk (fst (synthesize lib g))) = 100"
    "length (speed (fst (synthesize lib g))) = 100"
    "length (weather (fst (synthesize lib g))) = 100"
    "length (crowd (fst (synthesize lib g))) = 100"
    "length (score (fst (synthesize lib g))) = 100"
    by simp_all
qed

lemma toy_test_size: "\<lfloor>3602879701896397 / 2 ^ 54 * 100 + 1 / 2 :: real\<rfloor> = 20"
  by (rule floor_unique) simp_all

lemma toy_split_100:
  assumes "length y = 100"
  shows "toy_split X y (3602879701896397 / 2 ^ 54) g =
     ((map (drop 20) X, map (take 20) X, drop 20 y, take 20 y), Suc g)"
proof -
  have "real (length y) = 100"
    using assms by simp
  then have "\<lfloor>3602879701896397 / 2 ^ 54 * real (length y) + 1 / 2\<rfloor> = (20 :: int)"
    by (simp only: toy_test_size)
  then have "nat \<lfloor>3602879701896397 / 2 ^ 54 * real (length y) + 1 / 2\<rfloor> = 20"
    by simp
  then show ?thesis
    unfolding toy_split_def Let_def by (simp only:)
qed

lemma toy_train:
  "fst (train toy_library g) = \<lparr>regressor = Toy 80 50, anomaly_detector = Toy 80 1\<rparr>"
proof -
  obtain d g5 where syn: "synthesize toy_library g = (d, g5)"
    by (cases "synthesize toy_library g")
  have len: "length (risk d) = 100" "length (score d) = 100"
    using synthesize_lengths(1,5) [of toy_library g] syn by simp_all
  have toy: "train_test_split toy_library = toy_split"
    "fit_regressor toy_library = (\<lambda>X y g. (Toy (length y) 50, Suc g))"
    "fit_isolation toy_library
       = (\<lambda>X g. (Toy (case X of [] \<Rightarrow> 0 | c # cs \<Rightarrow> length c) 1, Suc g))"
    by (simp_all add: toy_library_def)
  show ?thesis
    by (simp add: train_def syn toy toy_split_100 [simplified] len)
qed

text \<open>
  C5 as stated fails in three ways. The data set has 100 samples, and both models are
  fitted on the 80 samples of the training part; fitting on the data set itself gives
  another model. With the detector file absent and a regressor file that does not
  unpickle, startup raises and has neither trained nor written anything. With both files
  absent and a directory that cannot be created, startup raises and no model file exists
  afterwards.
\<close>

theorem startup_fits_on_split:
  "length (risk (fst (synthesize toy_library 0))) = 100
   \<and> length (score (fst (synthesize toy_library 0))) = 100
   \<and> fst (startup toy_library (empty_filesystem, 0)) =
       Inr \<lparr>regressor = Toy 80 50, anomaly_detector = Toy 80 1\<rparr>
   \<and> fst (fit_regressor toy_library
        [risk (fst (synthesize toy_library 0)), speed (fst (synthesize toy_library 0)),
         weather (fst (synthesize toy_library 0)), crowd (fst (synthesize toy_library 0))]
        (score (fst (synthesize toy_library 0))) 0) = Toy 100 50
   \<and> files \<lparr>files = (\<lambda>p. None)(regressor_path \<mapsto> Unreadable (OtherError ''EOFError'' ''Ran out of input'')),
            dirs = {models_dir}, write_fault = (\<lambda>p. None)\<rparr> anomaly_path
       = (None :: toy_model stored option)
   \<and> startup toy_library
       (\<lparr>files = (\<lambda>p. None)(regressor_path \<mapsto> Unreadable (OtherError ''EOFError'' ''Ran out of input'')),
         dirs = {models_dir}, write_fault = (\<lambda>p. None)\<rparr>, 0)
       = (Inl (OtherError ''EOFError'' ''Ran out of input''),
          (\<lparr>files = (\<lambda>p. None)(regressor_path \<mapsto> Unreadable (OtherError ''EOFError'' ''Ran out of input'')),
            dirs = {models_dir}, write_fault = (\<lambda>p. None)\<rparr>, 0))
   \<and> fst (startup toy_library
       (\<lparr>files = (\<lambda>p. None), dirs = {},
         write_fault = (\<lambda>p. None)(models_dir \<mapsto> OtherError ''OSError'' ''[Errno 30] Read-only file system'')\<rparr>, 0))
       = Inl (OtherError ''OSError'' ''[Errno 30] Read-only file system'')
   \<and> files (fst (snd (startup toy_library
       (\<lparr>files = (\<lambda>p. None), dirs = {},
         write_fault = (\<lambda>p. None)(models_dir \<mapsto> OtherError ''OSError'' ''[Errno 30] Read-only file system'')\<rparr>, 0))))
       regressor_path = None"
proof -
  let ?e = "OtherError ''EOFError'' ''Ran out of input''"
  let ?o = "OtherError ''OSError'' ''[Errno 30] Read-only file system''"
  let ?fsA = "\<lparr>files = (\<lambda>p. None)(regressor_path \<mapsto> Unreadable ?e),
       dirs = {models_dir}, write_fault = (\<lambda>p. None)\<rparr> :: toy_model filesystem"
  let ?fsB = "\<lparr>files = (\<lambda>p. None), dirs = {},
        write_fault = (\<lambda>p. None)(models_dir \<mapsto> ?o)\<rparr> :: toy_model filesystem"
  obtain st g' where tr: "train toy_library 0 = (st, g')"
    by (cases "train toy_library 0")
  then have st: "st = \<lparr>regressor = Toy 80 50, anomaly_detector = Toy 80 1\<rparr>"
    using toy_train [of 0] by simp
  have "load regressor_path (empty_filesystem :: toy_model filesystem)
      = Inl (FileNotFoundError (''[Errno 2] No such file or directory: '' @ quoted regressor_path))"
    by (simp add: load_def empty_filesystem_def no_such_file_def)
  then have "startup toy_library (empty_filesystem, 0) =
     (case persist st empty_filesystem of
        (Inl e, fs') \<Rightarrow> (Inl e, (fs', g')) | (Inr u, fs') \<Rightarrow> (Inr st, (fs', g')))"
    using startup_training [of empty_filesystem _ toy_library 0 st g'] tr by blast
  moreover have "fst (persist st (empty_filesystem :: toy_model filesystem)) = Inr ()"
    using persist_success [of "empty_filesystem :: toy_model filesystem" st]
    by (simp add: empty_filesystem_def)
  ultimately have c1: "fst (startup toy_library (empty_filesystem, 0)) = Inr st"
    by (cases "persist st (empty_filesystem :: toy_model filesystem)") auto
  have c2: "fst (fit_regressor toy_library
        [risk (fst (synthesize toy_library 0)), speed (fst (synthesize toy_library 0)),
         weather (fst (synthesize toy_library 0)), crowd (fst (synthesize toy_library 0))]
        (score (fst (synthesize toy_library 0))) 0) = Toy 100 50"
    by (simp add: toy_library_def synthesize_lengths)
  have "anomaly_path \<noteq> regressor_path"
    by (simp add: anomaly_path_def regressor_path_def)
  then have a0: "files ?fsA anomaly_path = None"
    by simp
  have "load regressor_path ?fsA = Inl ?e"
    by (simp add: load_def)
  then have a1: "startup toy_library (?fsA, 0) = (Inl ?e, (?fsA, 0))"
    using startup_read_failure [of ?fsA ?e toy_library 0] by simp
  have "load regressor_path ?fsB
      = Inl (FileNotFoundError (''[Errno 2] No such file or directory: '' @ quoted regressor_path))"
    by (simp add: load_def no_such_file_def)
  then have "startup toy_library (?fsB, 0) =
     (case persist st ?fsB of
        (Inl e, fs') \<Rightarrow> (Inl e, (fs', g')) | (Inr u, fs') \<Rightarrow> (Inr st, (fs', g')))"
    using startup_training [of ?fsB _ toy_library 0 st g'] tr by blast
  moreover have "persist st ?fsB = (Inl ?o, ?fsB)"
    by (simp add: persist_def makedirs_def)
  ultimately have b: "startup toy_library (?fsB, 0) = (Inl ?o, (?fsB, g'))"
    by simp
  from c1 c2 st a0 a1 b show ?thesis
    by (simp add: synthesize_lengths)
qed

text \<open>
  C6. A failure of persistence at startup other than the absence of a model file is
  fatal. If loading the regressor, or loading the detector after the regressor loaded,
  raises anything but \<^verbatim>\<open>FileNotFoundError\<close>, startup raises it and has neither trained
  (the generator state is unchanged) nor written anything. If training was started because
  a file is absent and creating the directory or writing one of the two files raises,
  startup raises that exception.
\<close>

theorem startup_persistence_failure_fatal:
  "((load regressor_path fs = Inl e
       \<or> (\<exists>m. load regressor_path fs = Inr m) \<and> load anomaly_path fs = Inl e)
      \<and> (\<forall>msg. e \<noteq> FileNotFoundError msg)
     \<longrightarrow> startup lib (fs, g) = (Inl e, (fs, g)))
   \<and> ((load regressor_path fs = Inl (FileNotFoundError msg)
        \<or> (\<exists>m. load regressor_path fs = Inr m)
           \<and> load anomaly_path fs = Inl (FileNotFoundError msg))
      \<and> (makedirs models_dir fs = Inl e
          \<or> (\<exists>fs1. makedirs models_dir fs = Inr fs1
               \<and> (dump (regressor (fst (train lib g))) regressor_path fs1 = Inl e
                  \<or> (\<exists>fs2. dump (regressor (fst (train lib g))) regressor_path fs1 = Inr fs2
                       \<and> dump (anomaly_detector (fst (train lib g))) anomaly_path fs2 = Inl e))))
     \<longrightarrow> fst (startup lib (fs, g)) = Inl e)"
proof (intro conjI impI)
  assume "(load regressor_path fs = Inl e
       \<or> (\<exists>m. load regressor_path fs = Inr m) \<and> load anomaly_path fs = Inl e)
      \<and> (\<forall>msg. e \<noteq> FileNotFoundError msg)"
  then show "startup lib (fs, g) = (Inl e, (fs, g))"
    using startup_read_failure [of fs e lib g] by blast
next
  assume a: "(load regressor_path fs = Inl (FileNotFoundError msg)
        \<or> (\<exists>m. load regressor_path fs = Inr m)
           \<and> load anomaly_path fs = Inl (FileNotFoundError msg))
      \<and> (makedirs models_dir fs = Inl e
          \<or> (\<exists>fs1. makedirs models_dir fs = Inr fs1
               \<and> (dump (regressor (fst (train lib g))) regressor_path fs1 = Inl e
                  \<or> (\<exists>fs2. dump (regressor (fst (train lib g))) regressor_path fs1 = Inr fs2
                       \<and> dump (anomaly_detector (fst (train lib g))) anomaly_path fs2 = Inl e))))"
  obtain st g' where tr: "train lib g = (st, g')" by (cases "train lib g")
  from a tr have pf: "fst (persist st fs) = Inl e"
    by (simp only: persist_failure [of st fs e] fst_conv)
  obtain r fs' where p: "persist st fs = (r, fs')" by (cases "persist st fs")
  from a have "load regressor_path fs = Inl (FileNotFoundError msg)
        \<or> (\<exists>m. load regressor_path fs = Inr m)
           \<and> load anomaly_path fs = Inl (FileNotFoundError msg)"
    by blast
  from startup_training [OF this tr] p pf show "fst (startup lib (fs, g)) = Inl e"
    by simp
qed

theorem startup_persistence_failure_fatal_witness:
  "load regressor_path
      \<lparr>files = (\<lambda>p. None)(regressor_path \<mapsto> Unreadable (OtherError ''UnpicklingError'' ''invalid load key'')),
       dirs = {models_dir}, write_fault = (\<lambda>p. None)\<rparr>
     = (Inl (OtherError ''UnpicklingError'' ''invalid load key'') :: exn + toy_model)
   \<and> startup toy_library
      (\<lparr>files = (\<lambda>p. None)(regressor_path \<mapsto> Unreadable (OtherError ''UnpicklingError'' ''invalid load key'')),
        dirs = {models_dir}, write_fault = (\<lambda>p. None)\<rparr>, 0)
     = (Inl (OtherError ''UnpicklingError'' ''invalid load key''),
        (\<lparr>files = (\<lambda>p. None)(regressor_path \<mapsto> Unreadable (OtherError ''UnpicklingError'' ''invalid load key'')),
          dirs = {models_dir}, write_fault = (\<lambda>p. None)\<rparr>, 0))
   \<and> load regressor_path
      (\<lparr>files = (\<lambda>p. None), dirs = {},
        write_fault = (\<lambda>p. None)(models_dir \<mapsto> OtherError ''PermissionError'' ''[Errno 13] Permission denied'')\<rparr>
         :: toy_model filesystem)
     = Inl (no_such_file regressor_path)
   \<and> makedirs models_dir
      (\<lparr>files = (\<lambda>p. None), dirs = {},
        write_fault = (\<lambda>p. None)(models_dir \<mapsto> OtherError ''PermissionError'' ''[Errno 13] Permission denied'')\<rparr>
         :: toy_model filesystem)
     = Inl (OtherError ''PermissionError'' ''[Errno 13] Permission denied'')
   \<and> fst (startup toy_library
      (\<lparr>files = (\<lambda>p. None), dirs = {},
        write_fault = (\<lambda>p. None)(models_dir \<mapsto> OtherError ''PermissionError'' ''[Errno 13] Permission denied'')\<rparr>, 0))
     = Inl (OtherError ''PermissionError'' ''[Errno 13] Permission denied'')"
proof -
  let ?e = "OtherError ''UnpicklingError'' ''invalid load key''"
  let ?p = "OtherError ''PermissionError'' ''[Errno 13] Permission denied''"
  let ?fsA = "\<lparr>files = (\<lambda>p. None)(regressor_path \<mapsto> Unreadable ?e),
       dirs = {models_dir}, write_fault = (\<lambda>p. None)\<rparr> :: toy_model filesystem"
  let ?fsB = "\<lparr>files = (\<lambda>p. None), dirs = {},
        write_fault = (\<lambda>p. None)(models_dir \<mapsto> ?p)\<rparr> :: toy_model filesystem"
  have a1: "load regressor_path ?fsA = Inl ?e"
    by (simp add: load_def)
  have a2: "\<forall>msg. ?e \<noteq> FileNotFoundError msg"
    by simp
  have b1: "load regressor_path ?fsB = Inl (no_such_file regressor_path)"
    by (simp add: load_def)
  have b2: "makedirs models_dir ?fsB = Inl ?p"
    by (simp add: makedirs_def)
  from startup_persistence_failure_fatal [of ?fsA ?e toy_library 0] a1 a2
  have ra: "startup toy_library (?fsA, 0) = (Inl ?e, (?fsA, 0))"
    by blast
  from startup_persistence_failure_fatal
         [of ?fsB ?p toy_library 0 "''[Errno 2] No such file or directory: '' @ quoted regressor_path"]
       b1 b2
  have rb: "fst (startup toy_library (?fsB, 0)) = Inl ?p"
    by (simp add: no_such_file_def)
  from a1 ra b1 b2 rb show ?thesis
    by blast
qed

end
